theory Spec2Isabelle
  imports Complex_Main "HOL-Library.Word" "HOL-Library.Sublist"
begin

section \<open>JavaScript values\<close>

text \<open>
  A JavaScript string is a sequence of UTF-16 code units, and \<^verbatim>\<open>s.length\<close> is the
  number of code units. A character outside the Basic Multilingual Plane is a
  surrogate pair, two code units.
\<close>

type_synonym jschar = "16 word"
type_synonym jsstring = "jschar list"

definition ascii :: "string \<Rightarrow> jsstring" where
  "ascii s = map (\<lambda>c. of_nat (of_char c)) s"

text \<open>
  The values \<^verbatim>\<open>JSON.parse\<close> can return, and \<^verbatim>\<open>undefined\<close>, which reading a
  missing property yields. A finite number is a rational (\<^verbatim>\<open>-0\<close> is \<open>Finite 0\<close>:
  the code only tests numbers for truthiness); \<^verbatim>\<open>JSON.parse("1e999")\<close> is
  \<^verbatim>\<open>Infinity\<close>. An object is the list of its own properties.
\<close>

datatype jsnumber = Finite rat | PosInfinity | NegInfinity

datatype jsval =
    JUndefined
  | JNull
  | JBool bool
  | JNumber jsnumber
  | JString jsstring
  | JArray "jsval list"
  | JObject "(jsstring \<times> jsval) list"

datatype js_error = SyntaxError | TypeError

text \<open>Truthiness, and \<^verbatim>\<open>a || b\<close> on values.\<close>

fun truthy :: "jsval \<Rightarrow> bool" where
  "truthy JUndefined = False"
| "truthy JNull = False"
| "truthy (JBool b) = b"
| "truthy (JNumber n) = (n \<noteq> Finite 0)"
| "truthy (JString s) = (s \<noteq> [])"
| "truthy (JArray xs) = True"
| "truthy (JObject kvs) = True"

definition js_or :: "jsval \<Rightarrow> jsval \<Rightarrow> jsval" where
  "js_or a b = (if truthy a then a else b)"

text \<open>
  Property access \<^verbatim>\<open>v.k\<close>, for the three keys the code reads (\<^verbatim>\<open>content\<close>,
  \<^verbatim>\<open>reasoning\<close>, \<^verbatim>\<open>length\<close>; none of them is on \<^verbatim>\<open>Object.prototype\<close>). Reading
  a property of \<^verbatim>\<open>null\<close> or \<^verbatim>\<open>undefined\<close> throws a TypeError; a string and an
  array have \<^verbatim>\<open>length\<close>; a number and a boolean have none of the three.
\<close>

definition js_length :: "nat \<Rightarrow> jsval" where
  "js_length n = JNumber (Finite (of_nat n))"

fun js_get :: "jsval \<Rightarrow> jsstring \<Rightarrow> js_error + jsval" where
  "js_get JUndefined k = Inl TypeError"
| "js_get JNull k = Inl TypeError"
| "js_get (JBool b) k = Inr JUndefined"
| "js_get (JNumber n) k = Inr JUndefined"
| "js_get (JString s) k = Inr (if k = ascii ''length'' then js_length (length s) else JUndefined)"
| "js_get (JArray xs) k = Inr (if k = ascii ''length'' then js_length (length xs) else JUndefined)"
| "js_get (JObject kvs) k = Inr (case map_of kvs k of Some v \<Rightarrow> v | None \<Rightarrow> JUndefined)"

section \<open>The fence pattern\<close>

text \<open>
  The characters \<^verbatim>\<open>\s\<close> matches in a JavaScript regular expression (the same set
  \<^verbatim>\<open>String.prototype.trim\<close> strips).
\<close>

definition js_whitespace :: "jschar \<Rightarrow> bool" where
  "js_whitespace c \<longleftrightarrow>
     c \<in> {0x09, 0x0A, 0x0B, 0x0C, 0x0D, 0x20, 0xA0, 0x1680, 0x2028, 0x2029, 0x202F,
          0x205F, 0x3000, 0xFEFF}
     \<or> (0x2000 \<le> c \<and> c \<le> 0x200A)"

text \<open>
  A backtracking matcher in continuation-passing style: a pattern takes the
  matcher of what follows it and the remaining input. One combinator per
  construct of the pattern; a greedy quantifier tries the longer match first, a
  lazy one the shorter, and both fall back when what follows fails.
\<close>

definition re_lit :: "jsstring \<Rightarrow> (jsstring \<Rightarrow> 'a option) \<Rightarrow> jsstring \<Rightarrow> 'a option" where
  "re_lit p k s = (if prefix p s then k (drop (length p) s) else None)"

definition re_opt ::
  "((jsstring \<Rightarrow> 'a option) \<Rightarrow> jsstring \<Rightarrow> 'a option) \<Rightarrow> (jsstring \<Rightarrow> 'a option) \<Rightarrow> jsstring \<Rightarrow> 'a option" where
  "re_opt r k s = (case r k s of Some x \<Rightarrow> Some x | None \<Rightarrow> k s)"

fun re_star_greedy :: "(jschar \<Rightarrow> bool) \<Rightarrow> (jsstring \<Rightarrow> 'a option) \<Rightarrow> jsstring \<Rightarrow> 'a option" where
  "re_star_greedy P k [] = k []"
| "re_star_greedy P k (c # cs) =
     (if P c then (case re_star_greedy P k cs of Some x \<Rightarrow> Some x | None \<Rightarrow> k (c # cs))
      else k (c # cs))"

fun re_star_lazy :: "(jschar \<Rightarrow> bool) \<Rightarrow> (jsstring \<Rightarrow> 'a option) \<Rightarrow> jsstring \<Rightarrow> 'a option" where
  "re_star_lazy P k [] = k []"
| "re_star_lazy P k (c # cs) =
     (case k (c # cs) of Some x \<Rightarrow> Some x
      | None \<Rightarrow> if P c then re_star_lazy P k cs else None)"

text \<open>A capture group hands the text its body consumed to what follows.\<close>

definition re_group ::
  "((jsstring \<Rightarrow> 'a option) \<Rightarrow> jsstring \<Rightarrow> 'a option) \<Rightarrow> (jsstring \<Rightarrow> jsstring \<Rightarrow> 'a option) \<Rightarrow> jsstring \<Rightarrow> 'a option" where
  "re_group r k s = r (\<lambda>rest. k (take (length s - length rest) s) rest) s"

text \<open>The search of \<^verbatim>\<open>String.prototype.match\<close>: the leftmost start that matches.\<close>

fun re_search :: "(jsstring \<Rightarrow> 'a option) \<Rightarrow> jsstring \<Rightarrow> 'a option" where
  "re_search m [] = m []"
| "re_search m (c # cs) = (case m (c # cs) of Some x \<Rightarrow> Some x | None \<Rightarrow> re_search m cs)"

definition backticks :: jsstring where
  "backticks = ascii ''```''"

text \<open>
  The pattern of generatePosts, anchored at the start of its input; the result is
  capture group 1:
  \<^verbatim>\<open>/```(?:json)?\s*({[\s\S]*?})\s*```/\<close>
\<close>

definition fence_regex :: "jsstring \<Rightarrow> jsstring option" where
  "fence_regex =
     re_lit backticks
      (re_opt (re_lit (ascii ''json''))
        (re_star_greedy js_whitespace
          (re_group (\<lambda>k. re_lit (ascii ''{'') (re_star_lazy (\<lambda>c. True) (re_lit (ascii ''}'') k)))
            (\<lambda>cap. re_star_greedy js_whitespace (re_lit backticks (\<lambda>rest. Some cap))))))"

text \<open>\<^verbatim>\<open>text.match(...)\<close>: None when there is no match, else \<^verbatim>\<open>contentMatch[1]\<close>.\<close>

definition contentMatch :: "jsstring \<Rightarrow> jsstring option" where
  "contentMatch text = re_search fence_regex text"

section \<open>Normalising the answer of the completion call\<close>

record GeneratedPost =
  post_id :: "jsstring option"
  platform :: jsstring
  content :: jsval
  characterCount :: jsval
  reasoning :: jsval

definition default_reasoning :: jsstring where
  "default_reasoning = ascii ''Generated using AI optimization strategies''"

text \<open>
  The object literal pushed from a parsed answer. Its fields are evaluated in
  order; a TypeError (the answer parsed to \<^verbatim>\<open>null\<close>) leaves the enclosing
  \<^verbatim>\<open>try\<close> before anything is pushed.
\<close>

definition post_of_parsed :: "jsstring \<Rightarrow> jsval \<Rightarrow> jsstring \<Rightarrow> js_error + GeneratedPost" where
  "post_of_parsed p parsed text =
     (case js_get parsed (ascii ''content'') of
        Inl e \<Rightarrow> Inl e
      | Inr c \<Rightarrow>
         (case js_get (js_or c (JString text)) (ascii ''length'') of
            Inl e \<Rightarrow> Inl e
          | Inr n \<Rightarrow>
             (case js_get parsed (ascii ''reasoning'') of
                Inl e \<Rightarrow> Inl e
              | Inr r \<Rightarrow>
                 Inr \<lparr>post_id = None, platform = p, content = js_or c (JString text),
                      characterCount = n,
                      reasoning = js_or r (JString default_reasoning)\<rparr>)))"

text \<open>The body of a \<^verbatim>\<open>try\<close>: parse \<open>src\<close>, build the post.\<close>

definition try_parsed ::
  "(jsstring \<Rightarrow> js_error + jsval) \<Rightarrow> jsstring \<Rightarrow> jsstring \<Rightarrow> jsstring \<Rightarrow> js_error + GeneratedPost" where
  "try_parsed JSON_parse p src text =
     (case JSON_parse src of Inl e \<Rightarrow> Inl e | Inr parsed \<Rightarrow> post_of_parsed p parsed text)"

definition fallback_post :: "jsstring \<Rightarrow> jsstring \<Rightarrow> GeneratedPost" where
  "fallback_post p text =
     \<lparr>post_id = None, platform = p, content = JString text,
      characterCount = js_length (length text),
      reasoning = JString default_reasoning\<rparr>"

text \<open>
  The \<^verbatim>\<open>try\<close>/\<^verbatim>\<open>catch\<close> cascade of generatePosts (App.tsx, lines 1718 to 1757)
  that turns the answer \<open>text\<close> into the post of platform \<open>p\<close>. \<^verbatim>\<open>JSON.parse\<close> belongs to the runtime and is a
  parameter: \<open>Inl SyntaxError\<close> when it throws.
\<close>

definition normalize :: "(jsstring \<Rightarrow> js_error + jsval) \<Rightarrow> jsstring \<Rightarrow> jsstring \<Rightarrow> GeneratedPost" where
  "normalize JSON_parse p text =
     (case try_parsed JSON_parse p text text of
        Inr post \<Rightarrow> post
      | Inl e \<Rightarrow>
         (case contentMatch text of
            Some cap \<Rightarrow>
              (case try_parsed JSON_parse p cap text of
                 Inr post \<Rightarrow> post
               | Inl e' \<Rightarrow> fallback_post p text)
          | None \<Rightarrow> fallback_post p text))"

text \<open>
  A parser given by a table of \<^verbatim>\<open>JSON.parse\<close> facts, for concrete runs: it throws
  on every text that is not in the table.
\<close>

definition json_table :: "(jsstring \<times> jsval) list \<Rightarrow> jsstring \<Rightarrow> js_error + jsval" where
  "json_table tbl s = (case map_of tbl s of Some v \<Rightarrow> Inr v | None \<Rightarrow> Inl SyntaxError)"

text \<open>
  The file holds three revisions of the component. The model follows the last
  one; the second has the same cascade. The first revision has one \<^verbatim>\<open>try\<close> only,
  without the fence pattern and without the \<^verbatim>\<open>||\<close> defaults (lines 173 to 189):
  \<^verbatim>\<open>content: parsed.content, characterCount: parsed.content.length, reasoning: parsed.reasoning\<close>.
\<close>

definition normalize_first_revision ::
  "(jsstring \<Rightarrow> js_error + jsval) \<Rightarrow> jsstring \<Rightarrow> jsstring \<Rightarrow> GeneratedPost" where
  "normalize_first_revision JSON_parse p text =
     (case JSON_parse text of
        Inl e \<Rightarrow> fallback_post p text
      | Inr parsed \<Rightarrow>
         (case js_get parsed (ascii ''content'') of
            Inl e \<Rightarrow> fallback_post p text
          | Inr c \<Rightarrow>
             (case js_get c (ascii ''length'') of
                Inl e \<Rightarrow> fallback_post p text
              | Inr n \<Rightarrow>
                 (case js_get parsed (ascii ''reasoning'') of
                    Inl e \<Rightarrow> fallback_post p text
                  | Inr r \<Rightarrow>
                     \<lparr>post_id = None, platform = p, content = c, characterCount = n,
                      reasoning = r\<rparr>))))"

section \<open>The platform registry and the prompt\<close>

text \<open>
  An entry of \<^verbatim>\<open>PLATFORMS\<close> (lines 1376 to 1381). The icon component and the colour class of an entry
  are only rendered and are left out.
\<close>

record PlatformInfo =
  pf_id :: jsstring
  pf_name :: jsstring
  pf_limit :: nat

definition PLATFORMS :: "PlatformInfo list" where
  "PLATFORMS =
     [\<lparr>pf_id = ascii ''producthunt'', pf_name = ascii ''Product Hunt'', pf_limit = 260\<rparr>,
      \<lparr>pf_id = ascii ''twitter'', pf_name = ascii ''X (Twitter)'', pf_limit = 280\<rparr>,
      \<lparr>pf_id = ascii ''linkedin'', pf_name = ascii ''LinkedIn'', pf_limit = 3000\<rparr>,
      \<lparr>pf_id = ascii ''reddit'', pf_name = ascii ''Reddit'', pf_limit = 40000\<rparr>]"

text \<open>\<^verbatim>\<open>PLATFORMS.find(p => p.id === platform)\<close>\<close>

definition platformInfo :: "jsstring \<Rightarrow> PlatformInfo option" where
  "platformInfo p = find (\<lambda>i. pf_id i = p) PLATFORMS"

record Metadata =
  md_title :: "jsstring option"
  md_description :: "jsstring option"
  md_other :: "(jsstring \<times> jsval) list"

record WebsiteData =
  wd_url :: jsstring
  wd_title :: jsstring
  wd_description :: jsstring
  wd_content :: jsstring
  wd_metadata :: Metadata

text \<open>A natural number in a template literal: its decimal digits.\<close>

function decimal :: "nat \<Rightarrow> jsstring" where
  "decimal n = (if n < 10 then [of_nat (48 + n)] else decimal (n div 10) @ [of_nat (48 + n mod 10)])"
  by pat_completeness auto
termination
  by (relation "measure id") auto

declare decimal.simps [simp del]

text \<open>
  \<^verbatim>\<open>${platformInfo?.name}\<close> and \<^verbatim>\<open>${platformInfo?.limit}\<close>: an id that is not in the
  registry gives \<^verbatim>\<open>undefined\<close>, which a template literal prints as such.
\<close>

definition name_text :: "PlatformInfo option \<Rightarrow> jsstring" where
  "name_text info = (case info of None \<Rightarrow> ascii ''undefined'' | Some i \<Rightarrow> pf_name i)"

definition limit_text :: "PlatformInfo option \<Rightarrow> jsstring" where
  "limit_text info = (case info of None \<Rightarrow> ascii ''undefined'' | Some i \<Rightarrow> decimal (pf_limit i))"

definition prompt :: "WebsiteData \<Rightarrow> PlatformInfo option \<Rightarrow> jsstring" where
  \<open>prompt websiteData info =
     ascii ''You are an expert product launch copywriter. Create an optimized launch post for ''
       @ name_text info @ ascii ''.\<newline>''
     @ ascii ''\<newline>''
     @ ascii ''Website Information:\<newline>''
     @ ascii ''- Title: '' @ wd_title websiteData @ ascii ''\<newline>''
     @ ascii ''- Description: '' @ wd_description websiteData @ ascii ''\<newline>''
     @ ascii ''- URL: '' @ wd_url websiteData @ ascii ''\<newline>''
     @ ascii ''- Content: '' @ take 2000 (wd_content websiteData) @ ascii ''...\<newline>''
     @ ascii ''\<newline>''
     @ ascii ''Platform: '' @ name_text info @ ascii ''\<newline>''
     @ ascii ''Character Limit: '' @ limit_text info @ ascii ''\<newline>''
     @ ascii ''\<newline>''
     @ ascii ''Requirements:\<newline>''
     @ ascii ''1. Create compelling, engaging copy that drives clicks and engagement\<newline>''
     @ ascii ''2. Use proven launch strategies and hooks\<newline>''
     @ ascii ''3. Include relevant hashtags and mentions where appropriate\<newline>''
     @ ascii ''4. Stay within character limits\<newline>''
     @ ascii ''5. Make it platform-specific and optimized\<newline>''
     @ ascii ''\<newline>''
     @ ascii ''Please provide:\<newline>''
     @ ascii ''1. The final post content\<newline>''
     @ ascii ''2. Your reasoning and strategy behind the copy\<newline>''
     @ ascii ''\<newline>''
     @ ascii ''Format your response as JSON:\<newline>''
     @ ascii ''{\<newline>''
     @ ascii ''  "content": "the actual post content",\<newline>''
     @ ascii ''  "reasoning": "explanation of your strategy and choices"\<newline>''
     @ ascii ''}''\<close>

section \<open>The state of the component and the services it calls\<close>

record Project =
  proj_id :: jsstring
  proj_userId :: jsstring
  proj_name :: jsstring
  proj_websiteUrl :: "jsstring option"
  proj_websiteTitle :: "jsstring option"
  proj_websiteDescription :: "jsstring option"
  proj_websiteContent :: "jsstring option"
  proj_websiteMetadata :: "jsstring option"
  proj_selectedPlatforms :: "jsstring list option"
  proj_createdAt :: jsstring
  proj_updatedAt :: jsstring

text \<open>
  The two \<^verbatim>\<open>Partial<Project>\<close> objects the code builds, and
  \<^verbatim>\<open>{ ...prev, ...updatedProject }\<close>.
\<close>

datatype project_update =
    WebsiteUpdate jsstring jsstring jsstring jsstring jsstring jsstring
  | PlatformsUpdate "jsstring list" jsstring

fun apply_update :: "project_update \<Rightarrow> Project \<Rightarrow> Project" where
  "apply_update (WebsiteUpdate url title description cont metadata updatedAt) prev =
     prev\<lparr>proj_websiteUrl := Some url, proj_websiteTitle := Some title,
          proj_websiteDescription := Some description, proj_websiteContent := Some cont,
          proj_websiteMetadata := Some metadata, proj_updatedAt := updatedAt\<rparr>"
| "apply_update (PlatformsUpdate platforms updatedAt) prev =
     prev\<lparr>proj_selectedPlatforms := Some platforms, proj_updatedAt := updatedAt\<rparr>"

datatype chat_role = User | Assistant

record ChatMessage =
  msg_id :: "jsstring option"
  msg_role :: chat_role
  msg_content :: jsstring
  msg_timestamp :: jsstring

record PostRow =
  row_id :: jsstring
  row_projectId :: jsstring
  row_userId :: jsstring
  row_platform :: jsstring
  row_content :: jsval
  row_characterCount :: jsval
  row_reasoning :: jsval
  row_createdAt :: jsstring

record ScrapeResult =
  markdown :: jsstring
  metadata :: Metadata

text \<open>
  What the handlers do to the outside, in order: the notices shown to the user,
  the console, and the calls to the hosted services.
\<close>

datatype event =
    ToastError string
  | ToastSuccess string
  | ConsoleError string
  | Call_scrape jsstring
  | Call_generateText jsstring string
  | Call_projects_create Project
  | Call_projects_update jsstring project_update
  | Call_generatedPosts_create PostRow

text \<open>
  The state variables of \<^verbatim>\<open>App\<close>, with the trace of events. \<open>user\<close> holds the id
  of the signed-in user. The busy flags, the progress bar and its caption
  (reset by a timer) and the chat input are view state only and are left out.
\<close>

record app_state =
  user :: "jsstring option"
  projects :: "Project list"
  currentProject :: "Project option"
  websiteUrl :: jsstring
  websiteData :: "WebsiteData option"
  selectedPlatforms :: "jsstring list"
  generatedPosts :: "GeneratedPost list"
  chatMessages :: "ChatMessage list"
  showProjectSelector :: bool
  events :: "event list"

text \<open>
  The hosted services, the clock and the random source, as functions of a state
  \<open>'w\<close> of the outside world. A call that rejects returns \<open>None\<close> (or \<open>False\<close>).
  \<open>unique_suffix\<close> is \<^verbatim>\<open>${Date.now()}_${Math.random().toString(36).substr(2, 9)}\<close>.
\<close>

record 'w services =
  blink_ai_generateText :: "'w \<Rightarrow> jsstring \<Rightarrow> string \<Rightarrow> jsstring option \<times> 'w"
  blink_data_scrape :: "'w \<Rightarrow> jsstring \<Rightarrow> ScrapeResult option \<times> 'w"
  blink_db_projects_create :: "'w \<Rightarrow> Project \<Rightarrow> bool \<times> 'w"
  blink_db_projects_update :: "'w \<Rightarrow> jsstring \<Rightarrow> project_update \<Rightarrow> bool \<times> 'w"
  blink_db_generatedPosts_create :: "'w \<Rightarrow> PostRow \<Rightarrow> bool \<times> 'w"
  Date_toISOString :: "'w \<Rightarrow> jsstring \<times> 'w"
  Date_toLocaleDateString :: "'w \<Rightarrow> jsstring \<times> 'w"
  unique_suffix :: "'w \<Rightarrow> jsstring \<times> 'w"
  JSON_stringify :: "Metadata \<Rightarrow> jsstring"

definition emit :: "event list \<Rightarrow> app_state \<Rightarrow> app_state" where
  "emit es s = s\<lparr>events := events s @ es\<rparr>"

text \<open>
  A handler is a closure of one render: it reads the state variables as they
  were when it was called (\<open>s\<close> below), while every setter writes the live state.
\<close>

section \<open>generatePosts\<close>

text \<open>
  The \<^verbatim>\<open>for\<close> loop over \<^verbatim>\<open>selectedPlatforms\<close> (lines 1678 to 1758), from index
  \<open>i\<close> on. A rejected
  completion call leaves the loop for the \<^verbatim>\<open>catch\<close> of generatePosts: the result
  is \<open>None\<close> and the local array \<open>posts\<close> is dropped.
\<close>

fun generate_loop ::
  "(jsstring \<Rightarrow> js_error + jsval) \<Rightarrow> 'w services \<Rightarrow> WebsiteData \<Rightarrow> jsstring list \<Rightarrow>
   GeneratedPost list \<Rightarrow> event list \<Rightarrow> 'w \<Rightarrow> GeneratedPost list option \<times> event list \<times> 'w" where
  "generate_loop JSON_parse sv wd [] posts evs w = (Some posts, evs, w)"
| "generate_loop JSON_parse sv wd (p # ps) posts evs w =
     (case blink_ai_generateText sv w (prompt wd (platformInfo p)) ''gpt-4o-mini'' of
        (None, w') \<Rightarrow>
          (None, evs @ [Call_generateText (prompt wd (platformInfo p)) ''gpt-4o-mini''], w')
      | (Some text, w') \<Rightarrow>
          generate_loop JSON_parse sv wd ps (posts @ [normalize JSON_parse p text])
            (evs @ [Call_generateText (prompt wd (platformInfo p)) ''gpt-4o-mini'']) w')"

text \<open>
  Saving the posts of the current project; the first rejected write leaves the
  loop for the inner \<^verbatim>\<open>catch\<close> (result \<open>False\<close>).
\<close>

fun save_posts ::
  "'w services \<Rightarrow> Project \<Rightarrow> jsstring \<Rightarrow> GeneratedPost list \<Rightarrow> event list \<Rightarrow> 'w \<Rightarrow>
   bool \<times> event list \<times> 'w" where
  "save_posts sv proj uid [] evs w = (True, evs, w)"
| "save_posts sv proj uid (post # posts) evs w =
     (case unique_suffix sv w of (sfx, w1) \<Rightarrow>
      (case Date_toISOString sv w1 of (createdAt, w2) \<Rightarrow>
      (let row = \<lparr>row_id = ascii ''post_'' @ sfx, row_projectId = proj_id proj,
                  row_userId = uid, row_platform = platform post,
                  row_content = content post, row_characterCount = characterCount post,
                  row_reasoning = reasoning post, row_createdAt = createdAt\<rparr>
       in (case blink_db_generatedPosts_create sv w2 row of
             (False, w3) \<Rightarrow> (False, evs @ [Call_generatedPosts_create row], w3)
           | (True, w3) \<Rightarrow>
               save_posts sv proj uid posts (evs @ [Call_generatedPosts_create row]) w3))))"

text \<open>
  The block \<^verbatim>\<open>if (currentProject && user)\<close> after the loop, and the handler itself
  (lines 1665 to 1797).
\<close>

definition persist_posts ::
  "'w services \<Rightarrow> app_state \<Rightarrow> GeneratedPost list \<Rightarrow> event list \<Rightarrow> 'w \<Rightarrow> event list \<times> 'w" where
  "persist_posts sv s posts evs w =
     (case (currentProject s, user s) of
        (Some proj, Some uid) \<Rightarrow>
          (case save_posts sv proj uid posts evs w of
             (True, evs', w') \<Rightarrow> (evs', w')
           | (False, evs', w') \<Rightarrow> (evs' @ [ConsoleError ''Error saving posts to database:''], w'))
      | _ \<Rightarrow> (evs, w))"

definition generatePosts ::
  "(jsstring \<Rightarrow> js_error + jsval) \<Rightarrow> 'w services \<Rightarrow> app_state \<Rightarrow> 'w \<Rightarrow> app_state \<times> 'w" where
  "generatePosts JSON_parse sv s w =
     (case websiteData s of
        None \<Rightarrow> (emit [ToastError ''Please extract website data and select platforms first''] s, w)
      | Some wd \<Rightarrow>
          if selectedPlatforms s = []
          then (emit [ToastError ''Please extract website data and select platforms first''] s, w)
          else
            (case generate_loop JSON_parse sv wd (selectedPlatforms s) [] (events s) w of
               (None, evs, w') \<Rightarrow>
                 (s\<lparr>events := evs @ [ConsoleError ''Error generating posts:'',
                                      ToastError ''Failed to generate launch posts'']\<rparr>, w')
             | (Some posts, evs, w') \<Rightarrow>
                 (case persist_posts sv s posts evs w' of
                    (evs', w'') \<Rightarrow>
                      (s\<lparr>generatedPosts := posts,
                         events := evs' @ [ToastSuccess ''Launch posts generated successfully!'']\<rparr>,
                       w''))))"

section \<open>togglePlatform\<close>

text \<open>
  The handler of the last revision (lines 1877 to 1899); the earlier revisions
  compute the same list in a functional update (lines 259 to 265).
\<close>

definition newPlatforms :: "jsstring list \<Rightarrow> jsstring \<Rightarrow> jsstring list" where
  "newPlatforms sel platformId =
     (if platformId \<in> set sel then filter (\<lambda>i. i \<noteq> platformId) sel else sel @ [platformId])"

text \<open>
  \<^verbatim>\<open>setCurrentProject(prev => ...)\<close> and \<^verbatim>\<open>setProjects(prev => prev.map(...))\<close> after a
  write of \<open>upd\<close> to the project \<open>pid\<close>.
\<close>

definition merge_project :: "jsstring \<Rightarrow> project_update \<Rightarrow> app_state \<Rightarrow> app_state" where
  "merge_project pid upd s =
     s\<lparr>currentProject := map_option (apply_update upd) (currentProject s),
       projects := map (\<lambda>p. if proj_id p = pid then apply_update upd p else p) (projects s)\<rparr>"

definition togglePlatform :: "'w services \<Rightarrow> jsstring \<Rightarrow> app_state \<Rightarrow> 'w \<Rightarrow> app_state \<times> 'w" where
  "togglePlatform sv platformId s w =
     (let s1 = s\<lparr>selectedPlatforms := newPlatforms (selectedPlatforms s) platformId\<rparr>
      in case (currentProject s, user s) of
           (Some proj, Some uid) \<Rightarrow>
             (case Date_toISOString sv w of (now, w1) \<Rightarrow>
              (let upd = PlatformsUpdate (newPlatforms (selectedPlatforms s) platformId) now
               in (case blink_db_projects_update sv w1 (proj_id proj) upd of
                     (True, w2) \<Rightarrow>
                       (merge_project (proj_id proj) upd
                          (emit [Call_projects_update (proj_id proj) upd] s1), w2)
                   | (False, w2) \<Rightarrow>
                       (emit [Call_projects_update (proj_id proj) upd,
                              ConsoleError ''Error auto-saving platform selection:''] s1, w2))))
         | _ \<Rightarrow> (s1, w))"

section \<open>extractWebsiteData\<close>

text \<open>
  The handler is at lines 1598 to 1663, createNewProject at lines 1496 to 1530.
  First \<^verbatim>\<open>String.prototype.trim\<close>, and \<^verbatim>\<open>a || b\<close> on an optional string.
\<close>

definition trim :: "jsstring \<Rightarrow> jsstring" where
  "trim s = rev (dropWhile js_whitespace (rev (dropWhile js_whitespace s)))"

definition str_or :: "jsstring option \<Rightarrow> jsstring \<Rightarrow> jsstring" where
  "str_or a b = (case a of None \<Rightarrow> b | Some s \<Rightarrow> if s = [] then b else s)"

definition createNewProject :: "'w services \<Rightarrow> app_state \<Rightarrow> 'w \<Rightarrow> app_state \<times> 'w" where
  "createNewProject sv s w =
     (case user s of
        None \<Rightarrow> (s, w)
      | Some uid \<Rightarrow>
         (case Date_toLocaleDateString sv w of (today, w1) \<Rightarrow>
         (case unique_suffix sv w1 of (sfx, w2) \<Rightarrow>
         (case Date_toISOString sv w2 of (createdAt, w3) \<Rightarrow>
         (case Date_toISOString sv w3 of (updatedAt, w4) \<Rightarrow>
         (let newProject =
                \<lparr>proj_id = ascii ''proj_'' @ sfx, proj_userId = uid,
                 proj_name = ascii ''Launch Project '' @ today,
                 proj_websiteUrl = None, proj_websiteTitle = None,
                 proj_websiteDescription = None, proj_websiteContent = None,
                 proj_websiteMetadata = None, proj_selectedPlatforms = None,
                 proj_createdAt = createdAt, proj_updatedAt = updatedAt\<rparr>
          in (case blink_db_projects_create sv w4 newProject of
                (False, w5) \<Rightarrow>
                  (emit [Call_projects_create newProject,
                         ConsoleError ''Error creating project:'',
                         ToastError ''Failed to create new project''] s, w5)
              | (True, w5) \<Rightarrow>
                  (s\<lparr>websiteUrl := [], websiteData := None,
                     selectedPlatforms := [ascii ''producthunt''],
                     generatedPosts := [], chatMessages := [],
                     projects := newProject # projects s,
                     currentProject := Some newProject,
                     showProjectSelector := False,
                     events := events s @ [Call_projects_create newProject,
                                           ToastSuccess ''New project created!'']\<rparr>,
                   w5))))))))"

text \<open>\<^verbatim>\<open>if (!currentProject && user) { await createNewProject() }\<close>\<close>

definition ensure_project :: "'w services \<Rightarrow> app_state \<Rightarrow> 'w \<Rightarrow> app_state \<times> 'w" where
  "ensure_project sv s w =
     (if currentProject s = None \<and> user s \<noteq> None then createNewProject sv s w else (s, w))"

text \<open>
  The auto-save after a successful extraction; \<open>s\<close> is the state the handler was
  called in, \<open>s2\<close> the live state.
\<close>

definition autosave_website ::
  "'w services \<Rightarrow> app_state \<Rightarrow> WebsiteData \<Rightarrow> app_state \<Rightarrow> 'w \<Rightarrow> app_state \<times> 'w" where
  "autosave_website sv s websiteInfo s2 w =
     (case (currentProject s, user s) of
        (Some proj, Some uid) \<Rightarrow>
          (case Date_toISOString sv w of (now, w1) \<Rightarrow>
           (let upd = WebsiteUpdate (wd_url websiteInfo) (wd_title websiteInfo)
                        (wd_description websiteInfo) (wd_content websiteInfo)
                        (JSON_stringify sv (wd_metadata websiteInfo)) now
            in (case blink_db_projects_update sv w1 (proj_id proj) upd of
                  (True, w2) \<Rightarrow>
                    (merge_project (proj_id proj) upd
                       (emit [Call_projects_update (proj_id proj) upd] s2), w2)
                | (False, w2) \<Rightarrow>
                    (emit [Call_projects_update (proj_id proj) upd,
                           ConsoleError ''Error auto-saving project:''] s2, w2))))
      | _ \<Rightarrow> (s2, w))"

definition extractWebsiteData :: "'w services \<Rightarrow> app_state \<Rightarrow> 'w \<Rightarrow> app_state \<times> 'w" where
  "extractWebsiteData sv s w =
     (if trim (websiteUrl s) = []
      then (emit [ToastError ''Please enter a website URL''] s, w)
      else
        (case ensure_project sv s w of (s1, w1) \<Rightarrow>
         (case blink_data_scrape sv w1 (websiteUrl s) of
            (None, w2) \<Rightarrow>
              (emit [Call_scrape (websiteUrl s), ConsoleError ''Error extracting website:'',
                     ToastError ''Failed to extract website content''] s1, w2)
          | (Some r, w2) \<Rightarrow>
              (let websiteInfo =
                     \<lparr>wd_url = websiteUrl s,
                      wd_title = str_or (md_title (metadata r)) (ascii ''Untitled''),
                      wd_description = str_or (md_description (metadata r)) [],
                      wd_content = markdown r,
                      wd_metadata = metadata r\<rparr>
               in (case autosave_website sv s websiteInfo
                          (emit [Call_scrape (websiteUrl s)] (s1\<lparr>websiteData := Some websiteInfo\<rparr>)) w2 of
                     (s3, w3) \<Rightarrow>
                       (emit [ToastSuccess ''Website content extracted successfully!''] s3, w3))))))"

section \<open>Notions used to state the properties\<close>





text \<open>Every completion call of a run over the ids \<open>ps\<close>, started in world \<open>w\<close>, succeeds.\<close>

fun calls_succeed :: "'w services \<Rightarrow> WebsiteData \<Rightarrow> jsstring list \<Rightarrow> 'w \<Rightarrow> bool" where
  "calls_succeed sv wd [] w = True"
| "calls_succeed sv wd (p # ps) w =
     (case blink_ai_generateText sv w (prompt wd (platformInfo p)) ''gpt-4o-mini'' of
        (None, w') \<Rightarrow> False
      | (Some text, w') \<Rightarrow> calls_succeed sv wd ps w')"

text \<open>The world after the successful completion calls of a run over \<open>ps\<close>.\<close>

fun world_after :: "'w services \<Rightarrow> WebsiteData \<Rightarrow> jsstring list \<Rightarrow> 'w \<Rightarrow> 'w" where
  "world_after sv wd [] w = w"
| "world_after sv wd (p # ps) w =
     world_after sv wd ps (snd (blink_ai_generateText sv w (prompt wd (platformInfo p)) ''gpt-4o-mini''))"

text \<open>The posts such a run pushes, one per successful completion call.\<close>

fun emitted_posts ::
  "(jsstring \<Rightarrow> js_error + jsval) \<Rightarrow> 'w services \<Rightarrow> WebsiteData \<Rightarrow> jsstring list \<Rightarrow> 'w \<Rightarrow>
   GeneratedPost list" where
  "emitted_posts JSON_parse sv wd [] w = []"
| "emitted_posts JSON_parse sv wd (p # ps) w =
     (case blink_ai_generateText sv w (prompt wd (platformInfo p)) ''gpt-4o-mini'' of
        (None, w') \<Rightarrow> []
      | (Some text, w') \<Rightarrow> normalize JSON_parse p text # emitted_posts JSON_parse sv wd ps w')"

definition call_events :: "WebsiteData \<Rightarrow> jsstring list \<Rightarrow> event list" where
  "call_events wd ps = map (\<lambda>p. Call_generateText (prompt wd (platformInfo p)) ''gpt-4o-mini'') ps"

section \<open>Concrete runs\<close>

text \<open>Three facts about \<^verbatim>\<open>JSON.parse\<close>; every other text of the runs below is not JSON.\<close>

definition json_samples :: "(jsstring \<times> jsval) list" where
  \<open>json_samples =
     [(ascii ''{"content":"Launching Acme!","reasoning":"Short punchy hook"}'',
       JObject [(ascii ''content'', JString (ascii ''Launching Acme!'')),
                (ascii ''reasoning'', JString (ascii ''Short punchy hook''))]),
      (ascii ''{"content":"Hi"}'', JObject [(ascii ''content'', JString (ascii ''Hi''))]),
      (ascii ''{"content":""}'', JObject [(ascii ''content'', JString [])])]\<close>

definition sample_parse :: "jsstring \<Rightarrow> js_error + jsval" where
  "sample_parse = json_table json_samples"

text \<open>
  A scripted outside world: each completion call, scrape and project creation
  takes the next outcome of its script and fails when the script is used up;
  the other writes succeed.
\<close>

record script =
  ai_answers :: "jsstring option list"
  scrape_answers :: "ScrapeResult option list"
  create_answers :: "bool list"

definition scripted :: "script services" where
  "scripted =
     \<lparr>blink_ai_generateText = (\<lambda>w pr model.
          case ai_answers w of [] \<Rightarrow> (None, w) | a # as \<Rightarrow> (a, w\<lparr>ai_answers := as\<rparr>)),
      blink_data_scrape = (\<lambda>w url.
          case scrape_answers w of [] \<Rightarrow> (None, w) | a # as \<Rightarrow> (a, w\<lparr>scrape_answers := as\<rparr>)),
      blink_db_projects_create = (\<lambda>w proj.
          case create_answers w of [] \<Rightarrow> (False, w) | a # as \<Rightarrow> (a, w\<lparr>create_answers := as\<rparr>)),
      blink_db_projects_update = (\<lambda>w pid upd. (True, w)),
      blink_db_generatedPosts_create = (\<lambda>w row. (True, w)),
      Date_toISOString = (\<lambda>w. (ascii ''2024-01-01T00:00:00.000Z'', w)),
      Date_toLocaleDateString = (\<lambda>w. (ascii ''1/1/2024'', w)),
      unique_suffix = (\<lambda>w. (ascii ''1704067200000_k3j9x0q2m'', w)),
      JSON_stringify = (\<lambda>m. ascii ''{}'')\<rparr>"

text \<open>The state after the first render, with nobody signed in.\<close>

definition initial_state :: app_state where
  "initial_state =
     \<lparr>user = None, projects = [], currentProject = None, websiteUrl = [],
      websiteData = None, selectedPlatforms = [ascii ''producthunt''],
      generatedPosts = [], chatMessages = [], showProjectSelector = False, events = []\<rparr>"

definition acme :: WebsiteData where
  "acme =
     \<lparr>wd_url = ascii ''https://acme.io'', wd_title = ascii ''Acme'',
      wd_description = ascii ''Widgets'', wd_content = ascii ''...'',
      wd_metadata = \<lparr>md_title = Some (ascii ''Acme''), md_description = Some (ascii ''Widgets''),
                     md_other = []\<rparr>\<rparr>"

text \<open>Answers of the completion call used in the runs.\<close>

definition acme_answer :: jsstring where
  \<open>acme_answer = ascii ''{"content":"Launching Acme!","reasoning":"Short punchy hook"}''\<close>

definition empty_content_answer :: jsstring where
  \<open>empty_content_answer = ascii ''{"content":""}''\<close>



definition two_fences_answer :: jsstring where
  \<open>two_fences_answer =
     ascii ''```\<newline>{oops}\<newline>```\<newline>```json\<newline>{"content":"Hi"}\<newline>```''\<close>

definition widgets_answer :: jsstring where
  "widgets_answer = ascii ''Just buy our widgets''"



text \<open>States and scripts of the runs.\<close>

definition acme_state :: app_state where
  "acme_state = initial_state\<lparr>websiteData := Some acme\<rparr>"

definition two_platforms_state :: app_state where
  "two_platforms_state =
     initial_state\<lparr>websiteData := Some acme,
                    selectedPlatforms := [ascii ''twitter'', ascii ''linkedin'']\<rparr>"

definition myspace_state :: app_state where
  "myspace_state =
     initial_state\<lparr>websiteData := Some acme, selectedPlatforms := [ascii ''myspace'']\<rparr>"

definition answers :: "jsstring option list \<Rightarrow> script" where
  "answers as = \<lparr>ai_answers = as, scrape_answers = [], create_answers = []\<rparr>"

definition acme_scrape :: ScrapeResult where
  "acme_scrape =
     \<lparr>markdown = ascii ''...'',
      metadata = \<lparr>md_title = Some (ascii ''Acme''), md_description = Some (ascii ''Widgets''),
                  md_other = []\<rparr>\<rparr>"

text \<open>
  A signed-in user who has typed the address; the first project creation fails,
  the second succeeds; the first scrape succeeds, the second fails.
\<close>

definition typed_state :: app_state where
  "typed_state =
     initial_state\<lparr>user := Some (ascii ''u1''), websiteUrl := ascii ''https://acme.io''\<rparr>"

definition extraction_script :: script where
  "extraction_script =
     \<lparr>ai_answers = [], scrape_answers = [Some acme_scrape], create_answers = [False, True]\<rparr>"

text \<open>Two extractions in a row, started by that user; and a state with a stored page.\<close>

definition first_extraction :: "app_state \<times> script" where
  "first_extraction = extractWebsiteData scripted typed_state extraction_script"

definition second_extraction :: "app_state \<times> script" where
  "second_extraction = extractWebsiteData scripted (fst first_extraction) (snd first_extraction)"

definition revisit_state :: app_state where
  "revisit_state = acme_state\<lparr>websiteUrl := ascii ''https://acme.io''\<rparr>"

section \<open>Properties of the normaliser\<close>

lemma js_get_or_text: "\<exists>n. js_get (js_or c (JString text)) k = Inr n"
  by (cases c) (auto simp: js_or_def)

text \<open>
  C1, as the code has it. For every answer \<open>raw\<close> that parses as a JSON object with a
  \<^verbatim>\<open>content\<close> field \<open>v\<close>, the post content is \<open>v\<close> exactly when \<open>v\<close> is truthy (a
  non-empty string, say), and \<open>raw\<close> itself when \<open>v\<close> is falsy (the empty string,
  \<^verbatim>\<open>0\<close>, \<^verbatim>\<open>false\<close>, \<^verbatim>\<open>null\<close>): the code reads \<^verbatim>\<open>parsed.content || text\<close>. The
  reasoning is the object's \<^verbatim>\<open>reasoning\<close> field when it is present and truthy, and
  the literal "Generated using AI optimization strategies" otherwise.
\<close>

theorem normalize_json_object:
  assumes "JSON_parse raw = Inr (JObject kvs)" and "map_of kvs (ascii ''content'') = Some v"
  shows "content (normalize JSON_parse p raw) = (if truthy v then v else JString raw)
       \<and> reasoning (normalize JSON_parse p raw) =
           (case map_of kvs (ascii ''reasoning'') of
              Some r \<Rightarrow> if truthy r then r else JString default_reasoning
            | None \<Rightarrow> JString default_reasoning)"
proof -
  obtain n where n: "js_get (js_or v (JString raw)) (ascii ''length'') = Inr n"
    using js_get_or_text by blast
  show ?thesis
    using assms n
    by (simp add: normalize_def try_parsed_def post_of_parsed_def js_or_def split: option.splits)
qed

text \<open>The scenario of the specification: the answer of the Acme run.\<close>

theorem normalize_json_object_witness:
  "sample_parse acme_answer
     = Inr (JObject [(ascii ''content'', JString (ascii ''Launching Acme!'')),
                (ascii ''reasoning'', JString (ascii ''Short punchy hook''))])
   \<and> content (normalize sample_parse (ascii ''producthunt'') acme_answer)
     = JString (ascii ''Launching Acme!'')
   \<and> reasoning (normalize sample_parse (ascii ''producthunt'') acme_answer)
     = JString (ascii ''Short punchy hook'')"
proof -
  have p: "sample_parse acme_answer
     = Inr (JObject [(ascii ''content'', JString (ascii ''Launching Acme!'')),
                (ascii ''reasoning'', JString (ascii ''Short punchy hook''))])"
    by (simp add: sample_parse_def json_table_def json_samples_def acme_answer_def)
  have m: "map_of [(ascii ''content'', JString (ascii ''Launching Acme!'')),
                (ascii ''reasoning'', JString (ascii ''Short punchy hook''))] (ascii ''content'')
           = Some (JString (ascii ''Launching Acme!''))"
    by simp
  show ?thesis
    using normalize_json_object [where JSON_parse = sample_parse and raw = acme_answer
                and p = "ascii ''producthunt''", OF p m] p
    by (simp add: ascii_def)
qed

text \<open>
  C1 as stated fails: the answer \<^verbatim>\<open>{"content":""}\<close> parses as an object whose
  \<^verbatim>\<open>content\<close> field is the empty string, and the post content is the whole answer,
  not that field.
\<close>

theorem normalize_empty_content_counterexample:
  "sample_parse empty_content_answer = Inr (JObject [(ascii ''content'', JString [])])
   \<and> map_of [(ascii ''content'', JString [])] (ascii ''content'') = Some (JString [])
   \<and> content (normalize sample_parse (ascii ''twitter'') empty_content_answer)
       = JString empty_content_answer
   \<and> JString empty_content_answer \<noteq> JString []"
  by (simp add: sample_parse_def json_table_def json_samples_def normalize_def try_parsed_def
      post_of_parsed_def js_or_def ascii_def js_length_def empty_content_answer_def)

text \<open>
  The first revision differs: it keeps an empty \<^verbatim>\<open>content\<close>, and an answer without
  \<^verbatim>\<open>reasoning\<close> gets \<^verbatim>\<open>undefined\<close>, not the literal.
\<close>

lemma normalize_first_revision_object:
  assumes "JSON_parse raw = Inr (JObject kvs)" and "map_of kvs (ascii ''content'') = Some v"
    and "v \<noteq> JNull" and "v \<noteq> JUndefined"
  shows "content (normalize_first_revision JSON_parse p raw) = v
       \<and> reasoning (normalize_first_revision JSON_parse p raw) =
           (case map_of kvs (ascii ''reasoning'') of Some r \<Rightarrow> r | None \<Rightarrow> JUndefined)"
proof -
  obtain n where "js_get v (ascii ''length'') = Inr n"
    using assms(3,4) by (cases v) auto
  then show ?thesis
    using assms(1,2) by (simp add: normalize_first_revision_def split: option.splits)
qed

lemma normalize_first_revision_no_reasoning:
  "reasoning (normalize_first_revision sample_parse (ascii ''twitter'') (ascii ''{\"content\":\"Hi\"}''))
     = JUndefined"
  by (simp add: normalize_first_revision_def sample_parse_def json_table_def json_samples_def
      ascii_def js_length_def)

subsection \<open>What the fence pattern matches\<close>

lemma re_search_skip:
  "\<forall>i < length pre. m (drop i (pre @ s)) = None \<Longrightarrow> re_search m (pre @ s) = re_search m s"
proof (induction pre)
  case Nil
  then show ?case by simp
next
  case (Cons c pre)
  have "m (c # pre @ s) = None" using Cons.prems by force
  moreover have "\<forall>i < length pre. m (drop i (pre @ s)) = None"
    using Cons.prems by force
  ultimately show ?case using Cons.IH by simp
qed


























text \<open>
  Only the first fence is looked at: when it does not hold JSON, a later fence
  that does is ignored and the whole answer becomes the content.
\<close>

lemma first_fence_only:
  "contentMatch two_fences_answer = Some (ascii ''{oops}'')
   \<and> normalize sample_parse (ascii ''twitter'') two_fences_answer
       = fallback_post (ascii ''twitter'') two_fences_answer"
proof -
  have m: "contentMatch two_fences_answer = Some (ascii ''{oops}'')"
    by (simp add: contentMatch_def fence_regex_def re_lit_def re_opt_def re_group_def
        backticks_def ascii_def js_whitespace_def two_fences_answer_def)
  have p1: "sample_parse two_fences_answer = Inl SyntaxError"
    by (simp add: sample_parse_def json_table_def json_samples_def two_fences_answer_def ascii_def)
  have p2: "sample_parse (ascii ''{oops}'') = Inl SyntaxError"
    by (simp add: sample_parse_def json_table_def json_samples_def ascii_def)
  show ?thesis
    by (simp add: normalize_def try_parsed_def m p1 p2)
qed



section \<open>Properties of generatePosts\<close>

lemma platform_normalize: "platform (normalize P p answer) = p"
  by (simp add: normalize_def try_parsed_def post_of_parsed_def fallback_post_def
      split: sum.splits option.splits)

lemma generate_loop_success:
  "calls_succeed sv wd ps w \<Longrightarrow>
   generate_loop P sv wd ps posts evs w
     = (Some (posts @ emitted_posts P sv wd ps w), evs @ call_events wd ps, world_after sv wd ps w)"
proof (induction ps arbitrary: posts evs w)
  case Nil
  then show ?case by (simp add: call_events_def)
next
  case (Cons p ps)
  obtain r w' where r: "blink_ai_generateText sv w (prompt wd (platformInfo p)) ''gpt-4o-mini'' = (r, w')"
    by (cases "blink_ai_generateText sv w (prompt wd (platformInfo p)) ''gpt-4o-mini''")
  with Cons.prems obtain answer where t: "r = Some answer" and cs: "calls_succeed sv wd ps w'"
    by (cases r) auto
  show ?case
    using r t Cons.IH [OF cs] by (simp add: call_events_def)
qed

lemma emitted_platforms:
  "calls_succeed sv wd ps w \<Longrightarrow> map platform (emitted_posts P sv wd ps w) = ps"
proof (induction ps arbitrary: w)
  case Nil
  then show ?case by simp
next
  case (Cons p ps)
  obtain r w' where r: "blink_ai_generateText sv w (prompt wd (platformInfo p)) ''gpt-4o-mini'' = (r, w')"
    by (cases "blink_ai_generateText sv w (prompt wd (platformInfo p)) ''gpt-4o-mini''")
  with Cons.prems obtain answer where t: "r = Some answer" and cs: "calls_succeed sv wd ps w'"
    by (cases r) auto
  show ?case
    using r t Cons.IH [OF cs] by (simp add: platform_normalize)
qed


lemma generate_loop_failure:
  "calls_succeed sv wd pre w \<Longrightarrow>
   fst (blink_ai_generateText sv (world_after sv wd pre w) (prompt wd (platformInfo p)) ''gpt-4o-mini'') = None \<Longrightarrow>
   generate_loop P sv wd (pre @ p # rest) posts evs w
     = (None, evs @ call_events wd (pre @ [p]),
        snd (blink_ai_generateText sv (world_after sv wd pre w) (prompt wd (platformInfo p)) ''gpt-4o-mini''))"
proof (induction pre arbitrary: posts evs w)
  case Nil
  then show ?case
    by (cases "blink_ai_generateText sv w (prompt wd (platformInfo p)) ''gpt-4o-mini''")
       (simp add: call_events_def)
next
  case (Cons q qs)
  obtain r w' where r: "blink_ai_generateText sv w (prompt wd (platformInfo q)) ''gpt-4o-mini'' = (r, w')"
    by (cases "blink_ai_generateText sv w (prompt wd (platformInfo q)) ''gpt-4o-mini''")
  with Cons.prems(1) obtain answer where t: "r = Some answer" and cs: "calls_succeed sv wd qs w'"
    by (cases r) auto
  have f: "fst (blink_ai_generateText sv (world_after sv wd qs w') (prompt wd (platformInfo p)) ''gpt-4o-mini'') = None"
    using Cons.prems(2) r by simp
  show ?case
    using Cons.IH [OF cs f] r t by (simp add: call_events_def)
qed





text \<open>
  C8. Whenever no page has been extracted or no platform is selected,
  generatePosts shows the error notice "Please extract website data and select
  platforms first" and returns: the state is otherwise unchanged, the outside
  world is untouched, and no completion call (no call at all) is made.
\<close>

theorem generatePosts_empty_input:
  assumes "websiteData s = None \<or> selectedPlatforms s = []"
  shows "generatePosts P sv s w =
           (s\<lparr>events := events s @ [ToastError ''Please extract website data and select platforms first'']\<rparr>, w)"
  using assms by (auto simp: generatePosts_def emit_def split: option.splits)

theorem generatePosts_empty_input_witness:
  "websiteData initial_state = None
   \<and> generatePosts sample_parse scripted initial_state (answers [Some acme_answer]) =
       (initial_state\<lparr>events := [ToastError ''Please extract website data and select platforms first'']\<rparr>,
        answers [Some acme_answer])"
proof -
  have h: "websiteData initial_state = None \<or> selectedPlatforms initial_state = []"
    by (simp add: initial_state_def)
  have e: "events initial_state = []" by (simp add: initial_state_def)
  show ?thesis
    using generatePosts_empty_input [OF h, of sample_parse scripted "answers [Some acme_answer]"] e
    by (simp add: initial_state_def)
qed



text \<open>
  C2, as the code has it. The loop sits in one \<^verbatim>\<open>try\<close>: when the completion call
  of one platform fails, after the calls of the ids \<open>pre\<close> before it succeeded,
  the run stops there. No call is made for the ids after it, none of the posts
  generated in the run is stored (the stored posts and the rest of the state
  stay as they were), and the console error and the notice "Failed to generate
  launch posts" are issued.
\<close>

theorem generatePosts_call_failure_aborts:
  assumes wd: "websiteData s = Some wd"
    and ids: "selectedPlatforms s = pre @ p # rest"
    and ok: "calls_succeed sv wd pre w"
    and fails: "fst (blink_ai_generateText sv (world_after sv wd pre w)
                  (prompt wd (platformInfo p)) ''gpt-4o-mini'') = None"
  shows "fst (generatePosts P sv s w) =
           s\<lparr>events := events s @ call_events wd (pre @ [p])
                  @ [ConsoleError ''Error generating posts:'',
                     ToastError ''Failed to generate launch posts'']\<rparr>"
proof -
  have "generate_loop P sv wd (selectedPlatforms s) [] (events s) w
     = (None, events s @ call_events wd (pre @ [p]),
        snd (blink_ai_generateText sv (world_after sv wd pre w) (prompt wd (platformInfo p)) ''gpt-4o-mini''))"
    unfolding ids using ok fails by (rule generate_loop_failure)
  then show ?thesis
    using wd ids by (simp add: generatePosts_def)
qed

theorem generatePosts_call_failure_aborts_witness:
  "websiteData two_platforms_state = Some acme
   \<and> selectedPlatforms two_platforms_state = [ascii ''twitter''] @ ascii ''linkedin'' # []
   \<and> calls_succeed scripted acme [ascii ''twitter''] (answers [Some widgets_answer, None])
   \<and> fst (blink_ai_generateText scripted
            (world_after scripted acme [ascii ''twitter''] (answers [Some widgets_answer, None]))
            (prompt acme (platformInfo (ascii ''linkedin''))) ''gpt-4o-mini'') = None
   \<and> fst (generatePosts sample_parse scripted two_platforms_state (answers [Some widgets_answer, None]))
       = two_platforms_state\<lparr>events :=
           events two_platforms_state @ call_events acme ([ascii ''twitter''] @ [ascii ''linkedin''])
             @ [ConsoleError ''Error generating posts:'',
                ToastError ''Failed to generate launch posts'']\<rparr>"
proof -
  have h1: "websiteData two_platforms_state = Some acme"
    by (simp add: two_platforms_state_def)
  have h2: "selectedPlatforms two_platforms_state = [ascii ''twitter''] @ ascii ''linkedin'' # []"
    by (simp add: two_platforms_state_def)
  have h3: "calls_succeed scripted acme [ascii ''twitter''] (answers [Some widgets_answer, None])"
    by (simp add: scripted_def answers_def)
  have h4: "fst (blink_ai_generateText scripted
            (world_after scripted acme [ascii ''twitter''] (answers [Some widgets_answer, None]))
            (prompt acme (platformInfo (ascii ''linkedin''))) ''gpt-4o-mini'') = None"
    by (simp add: scripted_def answers_def)
  show ?thesis
    using generatePosts_call_failure_aborts [OF h1 h2 h3 h4, of sample_parse] h1 h2 h3 h4 by blast
qed

text \<open>
  C2 as stated fails: with twitter and linkedin selected, the call for twitter
  succeeding and the call for linkedin failing, no post is stored, the one
  generated for twitter included.
\<close>

theorem generatePosts_failure_discards_posts_counterexample:
  "selectedPlatforms two_platforms_state = [ascii ''twitter'', ascii ''linkedin'']
   \<and> blink_ai_generateText scripted (answers [Some widgets_answer, None])
        (prompt acme (platformInfo (ascii ''twitter''))) ''gpt-4o-mini''
       = (Some widgets_answer, answers [None])
   \<and> blink_ai_generateText scripted (answers [None])
        (prompt acme (platformInfo (ascii ''linkedin''))) ''gpt-4o-mini''
       = (None, answers [])
   \<and> generatedPosts (fst (generatePosts sample_parse scripted two_platforms_state
        (answers [Some widgets_answer, None]))) = []"
proof -
  have a: "blink_ai_generateText scripted (answers [Some widgets_answer, None])
        (prompt acme (platformInfo (ascii ''twitter''))) ''gpt-4o-mini''
       = (Some widgets_answer, answers [None])"
    by (simp add: scripted_def answers_def)
  have b: "blink_ai_generateText scripted (answers [None])
        (prompt acme (platformInfo (ascii ''linkedin''))) ''gpt-4o-mini''
       = (None, answers [])"
    by (simp add: scripted_def answers_def)
  have c: "selectedPlatforms two_platforms_state = [ascii ''twitter'', ascii ''linkedin'']"
    by (simp add: two_platforms_state_def)
  have d: "websiteData two_platforms_state = Some acme"
    by (simp add: two_platforms_state_def)
  have e: "generatedPosts two_platforms_state = []"
    by (simp add: two_platforms_state_def initial_state_def)
  have "generatedPosts (fst (generatePosts sample_parse scripted two_platforms_state
        (answers [Some widgets_answer, None]))) = []"
    by (simp add: generatePosts_def a b c d e)
  then show ?thesis using a b c by blast
qed

text \<open>
  C3, as the code has it. An id that is not in the registry is not skipped. In a
  run whose completion calls succeed, the loop makes a call for it as for any
  other id, with a prompt in which the name and the character limit of the
  platform read \<^verbatim>\<open>undefined\<close>, and pushes a post tagged with that id; the loop
  records nothing but the completion calls, so no warning.
\<close>

theorem generate_loop_unresolved_platform:
  assumes "calls_succeed sv wd ids w" and "p \<in> set ids" and "platformInfo p = None"
  shows "generate_loop P sv wd ids [] evs w
           = (Some (emitted_posts P sv wd ids w), evs @ call_events wd ids, world_after sv wd ids w)
       \<and> map platform (emitted_posts P sv wd ids w) = ids
       \<and> p \<in> platform ` set (emitted_posts P sv wd ids w)
       \<and> Call_generateText (prompt wd None) ''gpt-4o-mini'' \<in> set (call_events wd ids)
       \<and> name_text None = ascii ''undefined'' \<and> limit_text None = ascii ''undefined''"
proof -
  have l: "generate_loop P sv wd ids [] evs w
           = (Some (emitted_posts P sv wd ids w), evs @ call_events wd ids, world_after sv wd ids w)"
    using generate_loop_success [OF assms(1), of P "[]" evs] by simp
  have m: "map platform (emitted_posts P sv wd ids w) = ids"
    using assms(1) by (rule emitted_platforms)
  have "p \<in> set (map platform (emitted_posts P sv wd ids w))"
    using m assms(2) by simp
  then have i: "p \<in> platform ` set (emitted_posts P sv wd ids w)" by simp
  have "Call_generateText (prompt wd (platformInfo p)) ''gpt-4o-mini'' \<in> set (call_events wd ids)"
    using assms(2) by (auto simp: call_events_def)
  then have c: "Call_generateText (prompt wd None) ''gpt-4o-mini'' \<in> set (call_events wd ids)"
    using assms(3) by simp
  show ?thesis using l m i c by (simp add: name_text_def limit_text_def)
qed

lemma platformInfo_myspace: "platformInfo (ascii ''myspace'') = None"
  by (simp add: platformInfo_def PLATFORMS_def ascii_def)

theorem generate_loop_unresolved_platform_witness:
  "calls_succeed scripted acme [ascii ''myspace''] (answers [Some widgets_answer])
   \<and> platformInfo (ascii ''myspace'') = None
   \<and> generate_loop sample_parse scripted acme [ascii ''myspace''] [] [] (answers [Some widgets_answer])
       = (Some (emitted_posts sample_parse scripted acme [ascii ''myspace''] (answers [Some widgets_answer])),
          [] @ call_events acme [ascii ''myspace''],
          world_after scripted acme [ascii ''myspace''] (answers [Some widgets_answer]))
   \<and> map platform (emitted_posts sample_parse scripted acme [ascii ''myspace''] (answers [Some widgets_answer]))
       = [ascii ''myspace'']"
proof -
  have h1: "calls_succeed scripted acme [ascii ''myspace''] (answers [Some widgets_answer])"
    by (simp add: scripted_def answers_def)
  have h2: "ascii ''myspace'' \<in> set [ascii ''myspace'']" by simp
  show ?thesis
    using generate_loop_unresolved_platform [OF h1 h2 platformInfo_myspace, of sample_parse "[]"] h1 platformInfo_myspace
    by blast
qed

text \<open>
  C3 as stated fails: with the single id \<^verbatim>\<open>myspace\<close> selected, a post for
  \<^verbatim>\<open>myspace\<close> is stored, and the events of the run are the completion call and the
  success notice.
\<close>

theorem generatePosts_unresolved_platform_counterexample:
  "platformInfo (ascii ''myspace'') = None
   \<and> selectedPlatforms myspace_state = [ascii ''myspace'']
   \<and> generatedPosts (fst (generatePosts sample_parse scripted myspace_state (answers [Some widgets_answer])))
       = [fallback_post (ascii ''myspace'') widgets_answer]
   \<and> events (fst (generatePosts sample_parse scripted myspace_state (answers [Some widgets_answer])))
       = [Call_generateText (prompt acme None) ''gpt-4o-mini'',
          ToastSuccess ''Launch posts generated successfully!'']"
proof -
  have p: "sample_parse widgets_answer = Inl SyntaxError"
    by (simp add: sample_parse_def json_table_def json_samples_def widgets_answer_def ascii_def)
  have m: "contentMatch widgets_answer = None"
    by (simp add: contentMatch_def fence_regex_def re_lit_def backticks_def ascii_def widgets_answer_def)
  have n: "normalize sample_parse (ascii ''myspace'') widgets_answer
             = fallback_post (ascii ''myspace'') widgets_answer"
    by (simp add: normalize_def try_parsed_def p m)
  have a: "blink_ai_generateText scripted (answers [Some widgets_answer])
        (prompt acme None) ''gpt-4o-mini'' = (Some widgets_answer, answers [])"
    by (simp add: scripted_def answers_def)
  have s1: "websiteData myspace_state = Some acme" by (simp add: myspace_state_def)
  have s2: "selectedPlatforms myspace_state = [ascii ''myspace'']" by (simp add: myspace_state_def)
  have s3: "events myspace_state = []" by (simp add: myspace_state_def initial_state_def)
  have s4: "currentProject myspace_state = None" by (simp add: myspace_state_def initial_state_def)
  have g: "generatePosts sample_parse scripted myspace_state (answers [Some widgets_answer])
       = (myspace_state\<lparr>generatedPosts := [fallback_post (ascii ''myspace'') widgets_answer],
            events := [Call_generateText (prompt acme None) ''gpt-4o-mini'',
                       ToastSuccess ''Launch posts generated successfully!'']\<rparr>, answers [])"
    by (simp add: generatePosts_def persist_posts_def s1 s2 s3 s4 platformInfo_myspace a n)
  show ?thesis using g s2 platformInfo_myspace by simp
qed







section \<open>Properties of togglePlatform\<close>

lemma togglePlatform_selected:
  "selectedPlatforms (fst (togglePlatform sv p s w)) = newPlatforms (selectedPlatforms s) p"
  by (simp add: togglePlatform_def Let_def merge_project_def emit_def
      split: option.splits prod.splits bool.splits)

lemma newPlatforms_twice_set: "set (newPlatforms (newPlatforms sel p) p) = set sel"
  by (auto simp: newPlatforms_def)

lemma newPlatforms_twice_absent:
  "p \<notin> set sel \<Longrightarrow> newPlatforms (newPlatforms sel p) p = sel"
  by (auto simp: newPlatforms_def filter_id_conv)

lemma newPlatforms_others: "filter (\<lambda>i. i \<noteq> p) (newPlatforms sel p) = filter (\<lambda>i. i \<noteq> p) sel"
  by (simp add: newPlatforms_def)

lemma newPlatforms_member:
  "q \<in> set (newPlatforms sel p) \<longleftrightarrow> (if q = p then p \<notin> set sel else q \<in> set sel)"
  by (auto simp: newPlatforms_def)

text \<open>
  C10. For every selection and every id \<open>p\<close>, togglePlatform flips the membership
  of \<open>p\<close> and of no other id; after two toggles of \<open>p\<close> the set of selected ids is
  what it was, and the list itself when \<open>p\<close> was not selected at first; a toggle
  keeps the other ids in their order.
\<close>

theorem togglePlatform_flips:
  assumes "s1 = fst (togglePlatform sv p s w)" and "s2 = fst (togglePlatform sv p s1 w1)"
  shows "(\<forall>q. q \<in> set (selectedPlatforms s1) \<longleftrightarrow> (if q = p then p \<notin> set (selectedPlatforms s) else q \<in> set (selectedPlatforms s)))
       \<and> set (selectedPlatforms s2) = set (selectedPlatforms s)
       \<and> (p \<notin> set (selectedPlatforms s) \<longrightarrow> selectedPlatforms s2 = selectedPlatforms s)
       \<and> filter (\<lambda>i. i \<noteq> p) (selectedPlatforms s1) = filter (\<lambda>i. i \<noteq> p) (selectedPlatforms s)"
proof -
  have a: "selectedPlatforms s1 = newPlatforms (selectedPlatforms s) p"
    using assms(1) by (simp add: togglePlatform_selected)
  have b: "selectedPlatforms s2 = newPlatforms (newPlatforms (selectedPlatforms s) p) p"
    using assms(2) a by (simp add: togglePlatform_selected)
  show ?thesis
    unfolding a b
    using newPlatforms_member [of _ "selectedPlatforms s" p]
      newPlatforms_twice_set [of "selectedPlatforms s" p]
      newPlatforms_twice_absent [of p "selectedPlatforms s"]
      newPlatforms_others [of p "selectedPlatforms s"]
    by simp
qed

theorem togglePlatform_flips_witness:
  "ascii ''twitter'' \<notin> set (selectedPlatforms initial_state)
   \<and> selectedPlatforms (fst (togglePlatform scripted (ascii ''twitter'') initial_state (answers [])))
       = [ascii ''producthunt'', ascii ''twitter'']
   \<and> selectedPlatforms (fst (togglePlatform scripted (ascii ''twitter'')
        (fst (togglePlatform scripted (ascii ''twitter'') initial_state (answers []))) (answers [])))
       = [ascii ''producthunt'']"
proof -
  have s: "selectedPlatforms initial_state = [ascii ''producthunt'']"
    by (simp add: initial_state_def)
  have n: "ascii ''twitter'' \<notin> set (selectedPlatforms initial_state)"
    by (simp add: s ascii_def)
  have t: "selectedPlatforms (fst (togglePlatform scripted (ascii ''twitter'') initial_state (answers [])))
       = [ascii ''producthunt'', ascii ''twitter'']"
    by (simp add: togglePlatform_def initial_state_def newPlatforms_def ascii_def)
  show ?thesis
    using togglePlatform_flips [OF refl refl, of scripted "ascii ''twitter''" initial_state "answers []" "answers []"] n t s
    by simp
qed

section \<open>Properties of extractWebsiteData\<close>

lemma createNewProject_websiteData:
  "currentProject s = None \<Longrightarrow>
   websiteData (fst (createNewProject sv s w)) =
     (if currentProject (fst (createNewProject sv s w)) \<noteq> None then None else websiteData s)"
  by (simp add: createNewProject_def emit_def Let_def split: option.splits prod.splits bool.splits)

lemma ensure_project_websiteData:
  "websiteData (fst (ensure_project sv s w)) =
     (if currentProject s = None \<and> currentProject (fst (ensure_project sv s w)) \<noteq> None
      then None else websiteData s)"
proof (cases "currentProject s = None \<and> user s \<noteq> None")
  case True
  then show ?thesis
    using createNewProject_websiteData [of s sv w] by (simp add: ensure_project_def)
next
  case False
  then show ?thesis by (auto simp: ensure_project_def)
qed

text \<open>
  C9, as the code has it. When the scrape call of an extraction fails, the
  extraction itself does not write the stored page. The stored page is then
  what it was, unless this call has created a project first (a user is signed
  in, there is no current project, and the creation succeeds): creating a
  project resets the stored page to null before the scrape is tried.
\<close>

theorem extractWebsiteData_failure:
  assumes "fst (blink_data_scrape sv (snd (ensure_project sv s w)) (websiteUrl s)) = None"
  shows "websiteData (fst (extractWebsiteData sv s w)) =
           (if trim (websiteUrl s) \<noteq> [] \<and> currentProject s = None
               \<and> currentProject (fst (ensure_project sv s w)) \<noteq> None
            then None else websiteData s)"
proof (cases "trim (websiteUrl s) = []")
  case True
  then show ?thesis by (simp add: extractWebsiteData_def emit_def)
next
  case False
  obtain s1 w1 where e: "ensure_project sv s w = (s1, w1)"
    by (cases "ensure_project sv s w")
  obtain r w2 where sc: "blink_data_scrape sv w1 (websiteUrl s) = (r, w2)"
    by (cases "blink_data_scrape sv w1 (websiteUrl s)")
  have "r = None" using assms e sc by simp
  then have "websiteData (fst (extractWebsiteData sv s w)) = websiteData s1"
    using False e sc by (simp add: extractWebsiteData_def emit_def)
  then show ?thesis
    using ensure_project_websiteData [of sv s w] e False by simp
qed

lemma ascii_Nil_iff: "ascii s = [] \<longleftrightarrow> s = []"
  by (simp add: ascii_def)

lemma trim_acme: "trim (ascii ''https://acme.io'') = ascii ''https://acme.io''"
  by (simp add: trim_def ascii_def js_whitespace_def)

theorem extractWebsiteData_failure_witness:
  "fst (blink_data_scrape scripted (snd (ensure_project scripted revisit_state (answers [])))
          (websiteUrl revisit_state)) = None
   \<and> websiteData revisit_state = Some acme
   \<and> websiteData (fst (extractWebsiteData scripted revisit_state (answers []))) = Some acme"
proof -
  have u: "user revisit_state = None"
    by (simp add: revisit_state_def acme_state_def initial_state_def)
  have e: "ensure_project scripted revisit_state (answers []) = (revisit_state, answers [])"
    by (simp add: ensure_project_def u)
  have h: "fst (blink_data_scrape scripted (snd (ensure_project scripted revisit_state (answers [])))
          (websiteUrl revisit_state)) = None"
    unfolding e by (simp add: scripted_def answers_def)
  have d: "websiteData revisit_state = Some acme"
    by (simp add: revisit_state_def acme_state_def)
  have cp: "currentProject revisit_state = None"
    by (simp add: revisit_state_def acme_state_def initial_state_def)
  show ?thesis
    using extractWebsiteData_failure [OF h] h d e cp by simp
qed

lemma first_extraction_eval:
  "websiteData (fst first_extraction) =
     Some \<lparr>wd_url = ascii ''https://acme.io'', wd_title = ascii ''Acme'',
           wd_description = ascii ''Widgets'', wd_content = ascii ''...'',
           wd_metadata = metadata acme_scrape\<rparr>"
  "websiteUrl (fst first_extraction) = ascii ''https://acme.io''"
  "user (fst first_extraction) = Some (ascii ''u1'')"
  "currentProject (fst first_extraction) = None"
  "snd first_extraction = \<lparr>ai_answers = [], scrape_answers = [], create_answers = [True]\<rparr>"
  by (simp_all add: first_extraction_def extractWebsiteData_def typed_state_def initial_state_def
      trim_acme ensure_project_def createNewProject_def scripted_def extraction_script_def
      emit_def autosave_website_def acme_scrape_def str_or_def Let_def ascii_Nil_iff)

text \<open>
  C9 as stated fails. A signed-in user extracts a page while the creation of
  the project fails: the page is stored and there is still no current project.
  On the next extraction the project is created, the scrape fails, and the
  stored page is gone.
\<close>

theorem extractWebsiteData_new_project_counterexample:
  "websiteData (fst first_extraction) =
     Some \<lparr>wd_url = ascii ''https://acme.io'', wd_title = ascii ''Acme'',
           wd_description = ascii ''Widgets'', wd_content = ascii ''...'',
           wd_metadata = metadata acme_scrape\<rparr>
   \<and> fst (blink_data_scrape scripted
            (snd (ensure_project scripted (fst first_extraction) (snd first_extraction)))
            (websiteUrl (fst first_extraction))) = None
   \<and> websiteData (fst second_extraction) = None"
proof -
  have e: "snd (ensure_project scripted (fst first_extraction) (snd first_extraction))
             = \<lparr>ai_answers = [], scrape_answers = [], create_answers = []\<rparr>"
    "websiteData (fst (ensure_project scripted (fst first_extraction) (snd first_extraction))) = None"
    by (simp_all add: ensure_project_def createNewProject_def first_extraction_eval scripted_def Let_def)
  have f: "fst (blink_data_scrape scripted
            (snd (ensure_project scripted (fst first_extraction) (snd first_extraction)))
            (websiteUrl (fst first_extraction))) = None"
    unfolding e(1) by (simp add: scripted_def)
  obtain s1 w1 where en: "ensure_project scripted (fst first_extraction) (snd first_extraction) = (s1, w1)"
    by (cases "ensure_project scripted (fst first_extraction) (snd first_extraction)")
  have s1: "websiteData s1 = None" and w1: "w1 = \<lparr>ai_answers = [], scrape_answers = [], create_answers = []\<rparr>"
    using e en by simp_all
  have sc: "blink_data_scrape scripted w1 (ascii ''https://acme.io'') = (None, w1)"
    by (simp add: scripted_def w1)
  have ne: "trim (ascii ''https://acme.io'') \<noteq> []"
    by (simp add: trim_acme) (simp add: ascii_def)
  have "websiteData (fst second_extraction) = None"
    by (simp add: second_extraction_def extractWebsiteData_def first_extraction_eval(2) ne
        en sc s1 emit_def)
  then show ?thesis using f first_extraction_eval(1) by simp
qed

end
